theory Spec2Isabelle
  imports Main
begin

section \<open>Python values\<close>

text \<open>
  The values the application handles are what \<^verbatim>\<open>resp.json()\<close> produces: \<^verbatim>\<open>None\<close>,
  booleans, numbers, strings, lists and dicts. A dict is kept as an association list in
  insertion order; its keys are distinct in any value Python builds, and lookup is
  \<open>map_of\<close>. Only integer numbers are modelled. A Python \<^verbatim>\<open>str\<close> is a \<open>string\<close>: ASCII
  characters are themselves, a character beyond ASCII is its UTF-8 bytes.
\<close>

datatype json =
    JNull
  | JBool bool
  | JNum int
  | JStr string
  | JArr "json list"
  | JObj "(string \<times> json) list"

text \<open>Exceptions the source's own operations can raise and does not catch.\<close>

datatype exn = RequestException | JSONDecodeError | AttributeError | TypeError | ValueError

text \<open>
  How a call ends without a value. The first six constructors are the six places where
  \<^verbatim>\<open>call_api\<close> shows a message with \<^verbatim>\<open>st.error\<close> and halts the script with
  \<^verbatim>\<open>st.stop()\<close>; each carries what its message interpolates. \<open>Raised\<close> is an
  exception that propagates.
\<close>

datatype error =
    MissingCredential
  | Unauthorized
  | Forbidden
  | BadRequest string
  | MethodNotAllowed
  | ServiceError int string
  | Raised exn

text \<open>Python truthiness, as used by \<^verbatim>\<open>if x\<close>, \<^verbatim>\<open>not x\<close> and \<^verbatim>\<open>x or y\<close>.\<close>

fun truthy :: "json \<Rightarrow> bool" where
  "truthy JNull = False"
| "truthy (JBool b) = b"
| "truthy (JNum n) = (n \<noteq> 0)"
| "truthy (JStr s) = (s \<noteq> [])"
| "truthy (JArr xs) = (xs \<noteq> [])"
| "truthy (JObj kvs) = (kvs \<noteq> [])"

text \<open>
  \<^verbatim>\<open>d.get(k, default)\<close>; \<^verbatim>\<open>d.get(k)\<close> is the call with default \<open>JNull\<close>. Only a
  dict has the method: on any other value the attribute lookup raises.
\<close>

definition lookup :: "(string \<times> json) list \<Rightarrow> string \<Rightarrow> json \<Rightarrow> json" where
  "lookup kvs k d = (case map_of kvs k of None \<Rightarrow> d | Some v \<Rightarrow> v)"

fun dict_get :: "json \<Rightarrow> string \<Rightarrow> json \<Rightarrow> error + json" where
  "dict_get (JObj kvs) k d = Inr (lookup kvs k d)"
| "dict_get _ k d = Inl (Raised AttributeError)"

section \<open>Strings\<close>

text \<open>
  The string methods the source calls, on ASCII: the characters beyond ASCII that Python
  also counts as whitespace, as line boundaries or as lower-case letters are left alone.
\<close>

text \<open>The whitespace of \<^verbatim>\<open>str.strip()\<close>: tab, LF, VT, FF, CR, FS, GS, RS, US and space.\<close>

definition is_space :: "char \<Rightarrow> bool" where
  "is_space c = (c \<in> set [CHR 0x09, CHR 0x0A, CHR 0x0B, CHR 0x0C, CHR 0x0D,
                            CHR 0x1C, CHR 0x1D, CHR 0x1E, CHR 0x1F, CHR 0x20])"

definition strip :: "string \<Rightarrow> string" where
  "strip s = rev (dropWhile is_space (rev (dropWhile is_space s)))"

text \<open>The line boundaries of \<^verbatim>\<open>str.splitlines()\<close>: LF, VT, FF, CR, FS, GS, RS; CR LF is one.\<close>

definition is_linebreak :: "char \<Rightarrow> bool" where
  "is_linebreak c = (c \<in> set [CHR 0x0A, CHR 0x0B, CHR 0x0C, CHR 0x0D, CHR 0x1C, CHR 0x1D, CHR 0x1E])"

text \<open>
  \<open>splitlines_from cur s\<close>: the lines of \<open>s\<close>, the first one prefixed by \<open>cur\<close>, the part of
  the current line already read. A line break at the very end opens no further line.
\<close>

fun splitlines_from :: "string \<Rightarrow> string \<Rightarrow> string list" where
  "splitlines_from cur [] = (if cur = [] then [] else [cur])"
| "splitlines_from cur [c] = (if is_linebreak c then [cur] else [cur @ [c]])"
| "splitlines_from cur (c # d # cs) =
     (if c = CHR 0x0D \<and> d = CHR 0x0A then cur # splitlines_from [] cs
      else if is_linebreak c then cur # splitlines_from [] (d # cs)
      else splitlines_from (cur @ [c]) (d # cs))"

definition splitlines :: "string \<Rightarrow> string list" where
  "splitlines s = splitlines_from [] s"

definition upper_char :: "char \<Rightarrow> char" where
  "upper_char c =
     (let n = (of_char c :: nat) in if 97 \<le> n \<and> n \<le> 122 then char_of (n - 32) else c)"

definition upper :: "string \<Rightarrow> string" where
  "upper s = map upper_char s"

text \<open>\<^verbatim>\<open>s.replace(old, new)\<close> for a non-empty \<open>old\<close>: every occurrence, left to right.\<close>

fun replace :: "string \<Rightarrow> string \<Rightarrow> string \<Rightarrow> string" where
  "replace old new [] = []"
| "replace old new (c # cs) =
     (if old \<noteq> [] \<and> take (length old) (c # cs) = old
      then new @ replace old new (drop (length old) (c # cs))
      else c # replace old new cs)"

text \<open>The characters beyond ASCII that the source's literals contain, in UTF-8.\<close>

definition em_dash :: string where
  "em_dash = [CHR 0xE2, CHR 0x80, CHR 0x94]"

definition white_circle :: string where
  "white_circle = [CHR 0xE2, CHR 0x9A, CHR 0xAA]"

definition green_circle :: string where
  "green_circle = [CHR 0xF0, CHR 0x9F, CHR 0x9F, CHR 0xA2]"

definition yellow_circle :: string where
  "yellow_circle = [CHR 0xF0, CHR 0x9F, CHR 0x9F, CHR 0xA1]"

definition red_circle :: string where
  "red_circle = [CHR 0xF0, CHR 0x9F, CHR 0x94, CHR 0xB4]"

definition check_mark :: string where
  "check_mark = [CHR 0xE2, CHR 0x9C, CHR 0x85]"

definition cross_mark :: string where
  "cross_mark = [CHR 0xE2, CHR 0x9D, CHR 0x8C]"

section \<open>The HTTP call\<close>

record http_request =
  url :: string
  headers :: "(string \<times> string) list"
  body :: json
  timeout :: nat

text \<open>
  A response of the \<^verbatim>\<open>requests\<close> library: its status code, its body as text (\<^verbatim>\<open>resp.text\<close>), and what
  \<^verbatim>\<open>resp.json()\<close> evaluates to (\<open>None\<close> when the body is not JSON and the call raises).
\<close>

record response =
  status_code :: int
  resp_text :: string
  body_json :: "json option"

text \<open>
  \<^verbatim>\<open>Response.ok\<close> of the \<^verbatim>\<open>requests\<close> library: true unless \<^verbatim>\<open>raise_for_status()\<close>
  raises, which it does for a status from 400 up to 599.
\<close>

definition ok :: "response \<Rightarrow> bool" where
  "ok resp = (\<not> (400 \<le> status_code resp \<and> status_code resp < 600))"

definition API_URL :: string where
  "API_URL = ''https://sqwevzxsufrbsyjrucuw.supabase.co/functions/v1/verify-prescription-api''"

text \<open>
  \<^verbatim>\<open>st.secrets\<close> is the key-value content of the secrets file;
  a missing key raises inside the \<^verbatim>\<open>try\<close> and gives \<^verbatim>\<open>None\<close>.
\<close>

definition get_api_key :: "(string \<times> string) list \<Rightarrow> string option" where
  "get_api_key secrets = map_of secrets ''api_key''"

definition post_request :: "string \<Rightarrow> json \<Rightarrow> http_request" where
  "post_request api_key payload =
     \<lparr> url = API_URL,
       headers = [(''Content-Type'', ''application/json''), (''x-api-key'', api_key)],
       body = payload,
       timeout = 30 \<rparr>"

text \<open>
  \<^verbatim>\<open>call_api\<close>. The network is the function \<open>post\<close>: the response to a request, or
  \<open>None\<close> when \<^verbatim>\<open>requests.post\<close> raises (no connection, timeout). The list \<open>sent\<close>
  is the log of the requests issued so far; the call returns it extended by the request it
  issues, if it issues one.
\<close>

definition call_api ::
  "(http_request \<Rightarrow> response option) \<Rightarrow> (string \<times> string) list \<Rightarrow> json \<Rightarrow>
   http_request list \<Rightarrow> (error + json) \<times> http_request list" where
  "call_api post secrets payload sent =
     (case get_api_key secrets of
        None \<Rightarrow> (Inl MissingCredential, sent)
      | Some api_key \<Rightarrow>
          if api_key = [] then (Inl MissingCredential, sent)
          else
            let req = post_request api_key payload; sent' = sent @ [req] in
            (case post req of
               None \<Rightarrow> (Inl (Raised RequestException), sent')
             | Some resp \<Rightarrow>
                 if status_code resp = 401 then (Inl Unauthorized, sent')
                 else if status_code resp = 403 then (Inl Forbidden, sent')
                 else if status_code resp = 400 then (Inl (BadRequest (resp_text resp)), sent')
                 else if status_code resp = 405 then (Inl MethodNotAllowed, sent')
                 else if \<not> ok resp then
                   (Inl (ServiceError (status_code resp) (resp_text resp)), sent')
                 else
                   (case body_json resp of
                      None \<Rightarrow> (Inl (Raised JSONDecodeError), sent')
                    | Some j \<Rightarrow> (Inr j, sent'))))"

text \<open>A network that answers every request the same way.\<close>

definition replies :: "response option \<Rightarrow> http_request \<Rightarrow> response option" where
  "replies r req = r"


section \<open>Formatting\<close>

definition date_format :: string where
  "date_format = ''%b %d, %Y %H:%M UTC''"

text \<open>
  The body of the \<^verbatim>\<open>try\<close> in \<^verbatim>\<open>fmt_date\<close>. The two library calls are parameters:
  \<open>fromisoformat\<close> is \<^verbatim>\<open>datetime.fromisoformat\<close> and \<open>strftime\<close> is
  \<^verbatim>\<open>datetime.strftime\<close>, each \<open>None\<close> where the library raises. A value that is not
  a string has no \<^verbatim>\<open>replace\<close> method.
\<close>

definition fmt_date_try ::
  "(string \<Rightarrow> 'dt option) \<Rightarrow> ('dt \<Rightarrow> string \<Rightarrow> string option) \<Rightarrow> json \<Rightarrow> error + string" where
  "fmt_date_try fromisoformat strftime iso_in =
     (case iso_in of
        JStr s \<Rightarrow>
          (case fromisoformat (replace ''Z'' ''+00:00'' s) of
             None \<Rightarrow> Inl (Raised ValueError)
           | Some dt \<Rightarrow>
               (case strftime dt date_format of
                  None \<Rightarrow> Inl (Raised ValueError)
                | Some out \<Rightarrow> Inr out))
      | _ \<Rightarrow> Inl (Raised AttributeError))"

text \<open>
  \<^verbatim>\<open>fmt_date\<close>: the handler \<^verbatim>\<open>except Exception\<close> turns every error of the body into
  the argument itself.
\<close>

definition fmt_date ::
  "(string \<Rightarrow> 'dt option) \<Rightarrow> ('dt \<Rightarrow> string \<Rightarrow> string option) \<Rightarrow> json \<Rightarrow> error + json" where
  "fmt_date fromisoformat strftime iso_in =
     (if \<not> truthy iso_in then Inr (JStr em_dash)
      else
        (case fmt_date_try fromisoformat strftime iso_in of
           Inr out \<Rightarrow> Inr (JStr out)
         | Inl e \<Rightarrow> Inr iso_in))"

definition colors :: "(string \<times> string) list" where
  "colors = [(''active'', green_circle), (''expired'', red_circle),
             (''used'', yellow_circle), (''revoked'', red_circle)]"

text \<open>
  \<^verbatim>\<open>status_badge\<close>. The f-string evaluates \<^verbatim>\<open>colors.get(status, ...)\<close> first, which
  raises on an unhashable key (a list or a dict), then \<^verbatim>\<open>status.upper()\<close>, which only a
  string has.
\<close>

fun status_badge :: "json \<Rightarrow> error + string" where
  "status_badge (JStr status) =
     Inr ((case map_of colors status of None \<Rightarrow> white_circle | Some c \<Rightarrow> c) @ '' '' @ upper status)"
| "status_badge (JArr xs) = Inl (Raised TypeError)"
| "status_badge (JObj kvs) = Inl (Raised TypeError)"
| "status_badge _ = Inl (Raised AttributeError)"

section \<open>Rendering\<close>

text \<open>
  What the script puts on the page, one constructor for each Streamlit call of the source
  with the values the call is given: \<open>St_error v\<close> is the message
  \<^verbatim>\<open>Invalid prescription\<close> followed by \<open>v\<close>, \<open>St_info v\<close> the diagnosis \<open>v\<close>,
  \<open>St_dataframe v\<close> the table built from \<open>v\<close>, \<open>St_caption n\<close> the count of entered items,
  \<open>St_warning\<close> the notice that only the first 50 items are sent, and
  \<open>St_expander valid label expanded content\<close> one result of a batch. The label of a
  result is its prescription number or, without one, its position.
  The library calls themselves are not modelled: they record their arguments.
\<close>

datatype label = Given json | Numbered nat

datatype widget =
    St_error json
  | St_success
  | St_metric string json
  | St_info json
  | St_subheader
  | St_dataframe json
  | St_divider
  | St_caption nat
  | St_warning
  | St_expander bool label bool "widget list"

text \<open>
  A rendering function returns what it displayed and, when an exception ended it, the
  exception: what was displayed before stays on the page.
\<close>

type_synonym rendering = "widget list \<times> error option"

fun render_single_result ::
  "(string \<Rightarrow> 'dt option) \<Rightarrow> ('dt \<Rightarrow> string \<Rightarrow> string option) \<Rightarrow> json \<Rightarrow> rendering" where
  "render_single_result fromisoformat strftime (JObj data) =
     (if \<not> truthy (lookup data ''valid'' JNull) then
        ([St_error (lookup data ''error'' (JStr ''Unknown error''))], None)
      else
        let row1 = [St_success,
                    St_metric ''Rx Number'' (lookup data ''prescription_number'' (JStr em_dash))] in
        (case status_badge (lookup data ''status'' (JStr em_dash)) of
           Inl e \<Rightarrow> (row1, Some e)
         | Inr badge \<Rightarrow>
             let row2 = row1 @
                   [St_metric ''Status'' (JStr badge),
                    St_metric ''Patient'' (lookup data ''patient_name'' (JStr em_dash)),
                    St_metric ''Doctor'' (lookup data ''doctor_name'' (JStr em_dash)),
                    St_metric ''Organization'' (lookup data ''organization'' (JStr em_dash)),
                    St_metric ''Patient ID'' (lookup data ''patient_id'' (JStr em_dash))] in
             (case fmt_date fromisoformat strftime (lookup data ''created_at'' JNull) of
                Inl e \<Rightarrow> (row2, Some e)
              | Inr issued \<Rightarrow>
                  (case fmt_date fromisoformat strftime (lookup data ''valid_until'' JNull) of
                     Inl e \<Rightarrow> (row2 @ [St_metric ''Issued'' issued], Some e)
                   | Inr until \<Rightarrow>
                       let meds = lookup data ''medications'' (JArr []) in
                       (row2 @ [St_metric ''Issued'' issued, St_metric ''Valid Until'' until]
                          @ (if truthy (lookup data ''diagnosis'' JNull)
                             then [St_info (lookup data ''diagnosis'' JNull)] else [])
                          @ (if truthy meds then [St_subheader, St_dataframe meds] else []),
                        None)))))"
| "render_single_result fromisoformat strftime _ = ([], Some (Raised AttributeError))"

text \<open>
  \<^verbatim>\<open>sum(1 for r in results if r.get("valid"))\<close>: the generator stops at the first element
  that is not a dict.
\<close>

fun count_valid :: "json list \<Rightarrow> error + int" where
  "count_valid [] = Inr 0"
| "count_valid (r # rs) =
     (case dict_get r ''valid'' JNull of
        Inl e \<Rightarrow> Inl e
      | Inr v \<Rightarrow>
          (case count_valid rs of
             Inl e \<Rightarrow> Inl e
           | Inr n \<Rightarrow> Inr ((if truthy v then 1 else 0) + n)))"

record summary =
  total :: int
  valid_count :: int
  invalid_count :: int

text \<open>The first three statements of \<^verbatim>\<open>render_batch_results\<close>.\<close>

definition batch_summary :: "json list \<Rightarrow> error + summary" where
  "batch_summary results =
     (let n = int (length results) in
      case count_valid results of
        Inl e \<Rightarrow> Inl e
      | Inr v \<Rightarrow> Inr \<lparr> total = n, valid_count = v, invalid_count = n - v \<rparr>)"

text \<open>
  The loop of \<^verbatim>\<open>render_batch_results\<close> from position \<open>i\<close> on. It runs after the
  count, so every element is a dict when it is reached; the last equation is the
  \<^verbatim>\<open>r.get\<close> of any other value.
\<close>

fun render_each ::
  "(string \<Rightarrow> 'dt option) \<Rightarrow> ('dt \<Rightarrow> string \<Rightarrow> string option) \<Rightarrow> int \<Rightarrow> nat \<Rightarrow> json list \<Rightarrow>
   rendering" where
  "render_each fromisoformat strftime tot i [] = ([], None)"
| "render_each fromisoformat strftime tot i (JObj r # rs) =
     (let number = lookup r ''prescription_number'' JNull;
          label = (if truthy number then Given number else Numbered i);
          opened = St_expander (truthy (lookup r ''valid'' JNull)) label (tot \<le> 3);
          (content, e) = render_single_result fromisoformat strftime (JObj r)
      in case e of
           Some x \<Rightarrow> ([opened content], Some x)
         | None \<Rightarrow>
             (let (rest, e') = render_each fromisoformat strftime tot (Suc i) rs
              in (opened content # rest, e')))"
| "render_each fromisoformat strftime tot i (_ # rs) = ([], Some (Raised AttributeError))"

text \<open>
  What \<^verbatim>\<open>len\<close> and \<^verbatim>\<open>for\<close> see of a value: the elements of a list, the characters of
  a string, the keys of a dict; nothing else has a length.
\<close>

fun elements :: "json \<Rightarrow> error + json list" where
  "elements (JArr xs) = Inr xs"
| "elements (JStr s) = Inr (map (\<lambda>c. JStr [c]) s)"
| "elements (JObj kvs) = Inr (map (\<lambda>kv. JStr (fst kv)) kvs)"
| "elements _ = Inl (Raised TypeError)"

definition render_batch_results ::
  "(string \<Rightarrow> 'dt option) \<Rightarrow> ('dt \<Rightarrow> string \<Rightarrow> string option) \<Rightarrow> json \<Rightarrow> rendering" where
  "render_batch_results fromisoformat strftime results =
     (case elements results of
        Inl e \<Rightarrow> ([], Some e)
      | Inr rs \<Rightarrow>
          (case batch_summary rs of
             Inl e \<Rightarrow> ([], Some e)
           | Inr s \<Rightarrow>
               (let (shown, e) = render_each fromisoformat strftime (total s) 1 rs
                in ([St_metric ''Total'' (JNum (total s)),
                     St_metric (check_mark @ '' Valid'') (JNum (valid_count s)),
                     St_metric (cross_mark @ '' Invalid'') (JNum (invalid_count s)),
                     St_divider] @ shown, e))))"

section \<open>The two forms\<close>

text \<open>
  The state that outlives a call: the log of the requests issued and
  \<^verbatim>\<open>st.session_state\<close>.
\<close>

record app_state =
  sent :: "http_request list"
  session_state :: "string \<Rightarrow> json option"

text \<open>The payload of the single form, from the selected input type and the text entered.\<close>

definition single_payload :: "string \<Rightarrow> string \<Rightarrow> json" where
  "single_payload input_type v =
     (if input_type = ''Token'' then JObj [(''token'', JStr (strip v))]
      else JObj [(''url'', JStr (strip v))])"

text \<open>
  The single form. The button is disabled while the stripped text is empty, so it is
  pressed only when \<open>clicked\<close> and enabled.
\<close>

definition tab_single ::
  "(http_request \<Rightarrow> response option) \<Rightarrow> (string \<times> string) list \<Rightarrow>
   (string \<Rightarrow> 'dt option) \<Rightarrow> ('dt \<Rightarrow> string \<Rightarrow> string option) \<Rightarrow>
   string \<Rightarrow> string \<Rightarrow> bool \<Rightarrow> app_state \<Rightarrow> rendering \<times> app_state" where
  "tab_single post secrets fromisoformat strftime input_type v clicked st =
     (if clicked \<and> strip v \<noteq> [] then
        (let (res, sent') = call_api post secrets (single_payload input_type v) (sent st) in
         case res of
           Inl e \<Rightarrow> (([], Some e), st\<lparr>sent := sent'\<rparr>)
         | Inr result \<Rightarrow>
             (render_single_result fromisoformat strftime result,
              st\<lparr>sent := sent',
                 session_state := (session_state st)(''last_single_raw'' \<mapsto> result)\<rparr>))
      else (([], None), st))"

text \<open>The items of the batch form: the stripped lines that are not blank.\<close>

definition items_of :: "string \<Rightarrow> string list" where
  "items_of raw_input = map strip (filter (\<lambda>line. strip line \<noteq> []) (splitlines raw_input))"

text \<open>The cap on a pressed batch: the warning shown, if any, and the items kept.\<close>

definition limit_items :: "string list \<Rightarrow> widget list \<times> string list" where
  "limit_items items =
     (if length items > 50 then ([St_warning], take 50 items) else ([], items))"

definition batch_payload :: "string \<Rightarrow> string list \<Rightarrow> json" where
  "batch_payload batch_type items =
     (if batch_type = ''Tokens'' then JObj [(''tokens'', JArr (map JStr items))]
      else JObj [(''urls'', JArr (map JStr items))])"

text \<open>\<^verbatim>\<open>result.get("results", [result])\<close>.\<close>

definition results_list :: "json \<Rightarrow> error + json" where
  "results_list result = dict_get result ''results'' (JArr [result])"

definition tab_batch ::
  "(http_request \<Rightarrow> response option) \<Rightarrow> (string \<times> string) list \<Rightarrow>
   (string \<Rightarrow> 'dt option) \<Rightarrow> ('dt \<Rightarrow> string \<Rightarrow> string option) \<Rightarrow>
   string \<Rightarrow> string \<Rightarrow> bool \<Rightarrow> app_state \<Rightarrow> rendering \<times> app_state" where
  "tab_batch post secrets fromisoformat strftime batch_type raw_input clicked st =
     (let items = items_of raw_input;
          caption = (if items \<noteq> [] then [St_caption (length items)] else [])
      in if clicked \<and> items \<noteq> [] then
           (let (warning, items') = limit_items items;
                (res, sent') = call_api post secrets (batch_payload batch_type items') (sent st)
            in case res of
                 Inl e \<Rightarrow> ((caption @ warning, Some e), st\<lparr>sent := sent'\<rparr>)
               | Inr result \<Rightarrow>
                   (let st' = st\<lparr>sent := sent',
                                 session_state := (session_state st)(''last_batch_raw'' \<mapsto> result)\<rparr>
                    in case results_list result of
                         Inl e \<Rightarrow> ((caption @ warning, Some e), st')
                       | Inr rl \<Rightarrow>
                           (let (shown, e) = render_batch_results fromisoformat strftime rl
                            in ((caption @ warning @ shown, e), st'))))
         else ((caption, None), st))"

section \<open>The request bodies of the specification\<close>

text \<open>
  The body shapes as the specification words them: a JSON object with exactly one of the
  keys \<^verbatim>\<open>token\<close>, \<^verbatim>\<open>url\<close>, \<^verbatim>\<open>tokens\<close>, \<^verbatim>\<open>urls\<close>; a singular key holds a string, a
  plural key an array of strings.
\<close>

fun is_str :: "json \<Rightarrow> bool" where
  "is_str (JStr s) = True"
| "is_str _ = False"

fun is_str_array :: "json \<Rightarrow> bool" where
  "is_str_array (JArr xs) = list_all is_str xs"
| "is_str_array _ = False"

fun spec_request_body :: "json \<Rightarrow> bool" where
  "spec_request_body (JObj [(k, v)]) =
     (if k = ''token'' \<or> k = ''url'' then is_str v
      else if k = ''tokens'' \<or> k = ''urls'' then is_str_array v
      else False)"
| "spec_request_body _ = False"

section \<open>The results of the specification\<close>

text \<open>
  A verification result as the specification types it: an object whose \<^verbatim>\<open>valid\<close>
  field, when present, is a boolean.
\<close>

fun is_result :: "json \<Rightarrow> bool" where
  "is_result (JObj kvs) =
     (case map_of kvs ''valid'' of
        None \<Rightarrow> True
      | Some (JBool b) \<Rightarrow> True
      | Some _ \<Rightarrow> False)"
| "is_result _ = False"

text \<open>Whether a value is an object with \<^verbatim>\<open>valid\<close> equal to \<^verbatim>\<open>true\<close>.\<close>

fun valid_true :: "json \<Rightarrow> bool" where
  "valid_true (JObj kvs) = (map_of kvs ''valid'' = Some (JBool True))"
| "valid_true _ = False"


section \<open>Sample inputs\<close>

text \<open>
  Concrete inputs for the examples: a date library that knows one timestamp, an empty
  application state, a batch of \<open>n\<close> distinct tokens, one per line, and a raw input with
  blank lines, padding and a repeated entry.
\<close>

definition sample_fromisoformat :: "string \<Rightarrow> nat option" where
  "sample_fromisoformat s = (if s = ''2024-01-01T00:00:00+00:00'' then Some 0 else None)"

definition sample_strftime :: "nat \<Rightarrow> string \<Rightarrow> string option" where
  "sample_strftime dt fmt =
     (if dt = 0 \<and> fmt = date_format then Some ''Jan 01, 2024 00:00 UTC'' else None)"

definition sample_state :: app_state where
  "sample_state = \<lparr> sent = [], session_state = (\<lambda>k. None) \<rparr>"

definition sample_batch :: "nat \<Rightarrow> string" where
  "sample_batch n = concat (map (\<lambda>i. [CHR ''t'', char_of (48 + i), CHR 0x0A]) [0..<n])"

definition sample_lines :: string where
  "sample_lines = [CHR '' '', CHR ''a'', CHR '' '', CHR 0x0A, CHR 0x0A, CHR 0x09, CHR 0x0D, CHR 0x0A,
                   CHR ''a'', CHR 0x0A, CHR ''b'']"

section \<open>Classification of responses\<close>

text \<open>
  C1, as the code has it. With a credential present and a response received, the outcome
  follows the status code: 401 gives \<open>Unauthorized\<close>, 403 \<open>Forbidden\<close>, 400
  \<open>BadRequest\<close> with the raw body, 405 \<open>MethodNotAllowed\<close>, every other status from
  400 to 599 \<open>ServiceError\<close> with the status code and the raw body. At a status from 200
  to 299, and at every other status below 400 or above 599 (the code treats those as a
  success too), a body that is valid JSON is parsed and returned unchanged as the success
  payload; a body that is not valid JSON gives no payload and no classified error: the
  decoding exception of \<^verbatim>\<open>resp.json()\<close> propagates. Exactly one request is issued.
\<close>

theorem call_api_classifies_by_status:
  assumes key: "get_api_key secrets = Some k" "k \<noteq> []"
      and resp: "post (post_request k payload) = Some resp"
  shows "(status_code resp = 401 \<longrightarrow> fst (call_api post secrets payload log) = Inl Unauthorized)
       \<and> (status_code resp = 403 \<longrightarrow> fst (call_api post secrets payload log) = Inl Forbidden)
       \<and> (status_code resp = 400 \<longrightarrow>
            fst (call_api post secrets payload log) = Inl (BadRequest (resp_text resp)))
       \<and> (status_code resp = 405 \<longrightarrow>
            fst (call_api post secrets payload log) = Inl MethodNotAllowed)
       \<and> (400 \<le> status_code resp \<and> status_code resp < 600
            \<and> status_code resp \<notin> {400, 401, 403, 405} \<longrightarrow>
            fst (call_api post secrets payload log)
              = Inl (ServiceError (status_code resp) (resp_text resp)))
       \<and> (200 \<le> status_code resp \<and> status_code resp \<le> 299 \<and> body_json resp = Some j \<longrightarrow>
            fst (call_api post secrets payload log) = Inr j)
       \<and> ((status_code resp < 400 \<or> 600 \<le> status_code resp) \<and> body_json resp = Some j \<longrightarrow>
            fst (call_api post secrets payload log) = Inr j)
       \<and> ((status_code resp < 400 \<or> 600 \<le> status_code resp) \<and> body_json resp = None \<longrightarrow>
            fst (call_api post secrets payload log) = Inl (Raised JSONDecodeError))
       \<and> snd (call_api post secrets payload log) = log @ [post_request k payload]"
  using assms by (auto simp: call_api_def ok_def Let_def split: option.splits)

theorem call_api_classifies_by_status_witness:
  \<open>fst (call_api (replies (Some \<lparr>status_code = 403, resp_text = ''no'', body_json = None\<rparr>))
          [(''api_key'', ''k'')] (JObj [(''token'', JStr ''abc-123'')]) []) = Inl Forbidden
   \<and> fst (call_api (replies (Some \<lparr>status_code = 503, resp_text = ''down'', body_json = None\<rparr>))
          [(''api_key'', ''k'')] (JObj [(''token'', JStr ''abc-123'')]) [])
       = Inl (ServiceError 503 ''down'')
   \<and> fst (call_api (replies (Some \<lparr>status_code = 200, resp_text = ''{"valid": true}'',
                                    body_json = Some (JObj [(''valid'', JBool True)])\<rparr>))
          [(''api_key'', ''k'')] (JObj [(''token'', JStr ''abc-123'')]) [])
       = Inr (JObj [(''valid'', JBool True)])
   \<and> fst (call_api (replies (Some \<lparr>status_code = 204, resp_text = [], body_json = None\<rparr>))
          [(''api_key'', ''k'')] (JObj [(''token'', JStr ''abc-123'')]) [])
       = Inl (Raised JSONDecodeError)\<close>
  using
    call_api_classifies_by_status [of "[(''api_key'', ''k'')]" "''k''"
      "replies (Some \<lparr>status_code = 204, resp_text = [], body_json = None\<rparr>)"
      "JObj [(''token'', JStr ''abc-123'')]"
      "\<lparr>status_code = 204, resp_text = [], body_json = None\<rparr>" "[]"]
    call_api_classifies_by_status [of "[(''api_key'', ''k'')]" "''k''"
      "replies (Some \<lparr>status_code = 403, resp_text = ''no'', body_json = None\<rparr>)"
      "JObj [(''token'', JStr ''abc-123'')]"
      "\<lparr>status_code = 403, resp_text = ''no'', body_json = None\<rparr>" "[]"]
    call_api_classifies_by_status [of "[(''api_key'', ''k'')]" "''k''"
      "replies (Some \<lparr>status_code = 503, resp_text = ''down'', body_json = None\<rparr>)"
      "JObj [(''token'', JStr ''abc-123'')]"
      "\<lparr>status_code = 503, resp_text = ''down'', body_json = None\<rparr>" "[]"]
    call_api_classifies_by_status [of "[(''api_key'', ''k'')]" "''k''"
      \<open>replies (Some \<lparr>status_code = 200, resp_text = ''{"valid": true}'',
                                    body_json = Some (JObj [(''valid'', JBool True)])\<rparr>)\<close>
      "JObj [(''token'', JStr ''abc-123'')]"
      \<open>\<lparr>status_code = 200, resp_text = ''{"valid": true}'',
                                    body_json = Some (JObj [(''valid'', JBool True)])\<rparr>\<close> "[]"
      "JObj [(''valid'', JBool True)]"]
  by (simp add: get_api_key_def replies_def)

text \<open>
  The claim as worded sends every status outside 200 to 299 that is not 400, 401, 403 or
  405 to \<open>ServiceError\<close>. A response with status 304 is returned as a success.
\<close>

theorem redirect_status_not_service_error:
  "fst (call_api (replies (Some \<lparr>status_code = 304, resp_text = ''{}'', body_json = Some (JObj [])\<rparr>))
          [(''api_key'', ''k'')] (JObj [(''token'', JStr ''t'')]) []) = Inr (JObj [])
   \<and> fst (call_api (replies (Some \<lparr>status_code = 304, resp_text = ''{}'', body_json = Some (JObj [])\<rparr>))
          [(''api_key'', ''k'')] (JObj [(''token'', JStr ''t'')]) []) \<noteq> Inl (ServiceError 304 ''{}'')"
  by (simp add: call_api_def get_api_key_def replies_def ok_def Let_def)

text \<open>
  C2. When the secrets hold no API key, or an empty one, the call ends with
  \<open>MissingCredential\<close> and the log of issued requests is unchanged, whatever the network
  would answer: no request is issued.
\<close>

theorem missing_credential_no_request:
  assumes "get_api_key secrets = None \<or> get_api_key secrets = Some []"
  shows "call_api post secrets payload log = (Inl MissingCredential, log)"
  using assms by (auto simp: call_api_def)

theorem missing_credential_no_request_witness:
  "call_api (replies (Some \<lparr>status_code = 200, resp_text = ''{}'', body_json = Some (JObj [])\<rparr>))
     [] (JObj [(''token'', JStr ''abc-123'')]) [] = (Inl MissingCredential, [])
   \<and> call_api (replies (Some \<lparr>status_code = 200, resp_text = ''{}'', body_json = Some (JObj [])\<rparr>))
     [(''api_key'', [])] (JObj [(''token'', JStr ''abc-123'')]) [] = (Inl MissingCredential, [])"
  using
    missing_credential_no_request [of "[]"
      "replies (Some \<lparr>status_code = 200, resp_text = ''{}'', body_json = Some (JObj [])\<rparr>)"
      "JObj [(''token'', JStr ''abc-123'')]" "[]"]
    missing_credential_no_request [of "[(''api_key'', [])]"
      "replies (Some \<lparr>status_code = 200, resp_text = ''{}'', body_json = Some (JObj [])\<rparr>)"
      "JObj [(''token'', JStr ''abc-123'')]" "[]"]
  by (simp add: get_api_key_def)

section \<open>Strings and lines\<close>

lemma dropWhile_last: "dropWhile P xs \<noteq> [] \<Longrightarrow> last (dropWhile P xs) = last xs"
  by (induction xs) (auto split: if_splits)

lemma strip_ends:
  assumes "strip s \<noteq> []"
  shows "\<not> is_space (hd (strip s)) \<and> \<not> is_space (last (strip s))"
proof -
  let ?t = "dropWhile is_space s"
  let ?ys = "dropWhile is_space (rev ?t)"
  from assms have ys: "?ys \<noteq> []" by (simp add: strip_def)
  then have t: "?t \<noteq> []" by (metis dropWhile.simps(1) rev.simps(1))
  have "last (strip s) = hd ?ys" using ys by (simp add: strip_def last_rev)
  moreover have "\<not> is_space (hd ?ys)" using ys by (rule hd_dropWhile)
  moreover have "hd (strip s) = last ?ys" using ys by (simp add: strip_def hd_rev)
  moreover have "last ?ys = last (rev ?t)" using ys by (rule dropWhile_last)
  moreover have "last (rev ?t) = hd ?t" using t by (simp add: last_rev)
  moreover have "\<not> is_space (hd ?t)" using t by (rule hd_dropWhile)
  ultimately show ?thesis by simp
qed

lemma strip_fixed:
  assumes "xs \<noteq> []" "\<not> is_space (hd xs)" "\<not> is_space (last xs)"
  shows "strip xs = xs"
proof -
  have 1: "dropWhile is_space xs = xs" using assms by (cases xs) auto
  have "rev xs \<noteq> []" "\<not> is_space (hd (rev xs))" using assms by (simp_all add: hd_rev)
  then have "dropWhile is_space (rev xs) = rev xs" by (cases "rev xs") auto
  with 1 show ?thesis by (simp add: strip_def)
qed

lemma strip_idem: "strip (strip s) = strip s"
proof (cases "strip s = []")
  case True
  have "strip [] = []" by (simp add: strip_def)
  with True show ?thesis by (simp only:)
next
  case False
  then show ?thesis using strip_ends [OF False] by (intro strip_fixed) auto
qed

lemma items_of_filter:
  "items_of raw = filter (\<lambda>s. s \<noteq> []) (map strip (splitlines raw))"
  by (simp add: items_of_def filter_map comp_def)

lemma count_list_filter:
  "count_list (filter P xs) x = (if P x then count_list xs x else 0)"
  by (induction xs) auto

section \<open>What the forms send\<close>

lemma call_api_log:
  "snd (call_api post secrets payload log) = log
   \<or> (\<exists>k. snd (call_api post secrets payload log) = log @ [post_request k payload])"
  by (auto simp: call_api_def Let_def split: option.splits)

lemma call_api_sent:
  assumes "get_api_key secrets = Some k" "k \<noteq> []"
  shows "snd (call_api post secrets payload log) = log @ [post_request k payload]"
  using assms by (auto simp: call_api_def Let_def split: option.splits)

lemma spec_single_payload: "spec_request_body (single_payload input_type v)"
  by (simp add: single_payload_def)

lemma list_all_is_str: "list_all is_str (map JStr items)"
  by (induction items) auto

lemma spec_batch_payload: "spec_request_body (batch_payload batch_type items)"
  by (simp add: batch_payload_def list_all_is_str)

lemma tab_single_sent:
  "sent (snd (tab_single post secrets f g input_type v clicked st)) = sent st
   \<or> (\<exists>k. sent (snd (tab_single post secrets f g input_type v clicked st))
            = sent st @ [post_request k (single_payload input_type v)])"
  using call_api_log [of "post" secrets "single_payload input_type v" "sent st"]
  by (auto simp: tab_single_def Let_def split: prod.splits sum.splits)

lemma tab_batch_sent:
  "sent (snd (tab_batch post secrets f g batch_type raw clicked st)) = sent st
   \<or> (\<exists>k. sent (snd (tab_batch post secrets f g batch_type raw clicked st))
            = sent st @ [post_request k (batch_payload batch_type (snd (limit_items (items_of raw))))])"
  using call_api_log [of "post" secrets "batch_payload batch_type (snd (limit_items (items_of raw)))" "sent st"]
  by (auto simp: tab_batch_def Let_def split: prod.splits sum.splits)

lemma tab_batch_request:
  assumes "clicked" "items_of raw \<noteq> []" "get_api_key secrets = Some k" "k \<noteq> []"
  shows "sent (snd (tab_batch post secrets f g batch_type raw clicked st))
         = sent st @ [post_request k (batch_payload batch_type (snd (limit_items (items_of raw))))]"
  using assms call_api_sent [OF assms(3,4), of "post" "batch_payload batch_type (snd (limit_items (items_of raw)))" "sent st"]
  by (auto simp: tab_batch_def Let_def split: prod.splits sum.splits)

text \<open>
  C3, as the code has it. For every payload that is a JSON object: if it has a
  \<^verbatim>\<open>results\<close> key, the result is the value of that key, whatever its type (so a
  sequence is returned as it is); if it has none, the result is the one-element sequence
  holding the whole payload. In particular \<^verbatim>\<open>{"results": [a, b]}\<close> gives \<open>[a, b]\<close>.
\<close>

theorem results_list_of_object:
  "(map_of kvs ''results'' = Some v \<longrightarrow> results_list (JObj kvs) = Inr v)
   \<and> (map_of kvs ''results'' = None \<longrightarrow> results_list (JObj kvs) = Inr (JArr [JObj kvs]))
   \<and> results_list (JObj [(''results'', JArr [a, b])]) = Inr (JArr [a, b])"
  by (simp add: results_list_def lookup_def)

theorem results_list_of_object_witness:
  "results_list (JObj [(''results'', JArr [JObj [(''valid'', JBool True)], JObj [(''valid'', JBool False)]])])
     = Inr (JArr [JObj [(''valid'', JBool True)], JObj [(''valid'', JBool False)]])
   \<and> results_list (JObj [(''valid'', JBool True)]) = Inr (JArr [JObj [(''valid'', JBool True)]])"
  using
    results_list_of_object [of "[(''results'', JArr [JObj [(''valid'', JBool True)], JObj [(''valid'', JBool False)]])]"
       "JArr [JObj [(''valid'', JBool True)], JObj [(''valid'', JBool False)]]"]
    results_list_of_object [of "[(''valid'', JBool True)]"]
  by simp

text \<open>
  The claim as worded falls back to the one-element sequence whenever \<^verbatim>\<open>results\<close> is
  not a sequence. For \<^verbatim>\<open>{"results": null}\<close> the code returns \<^verbatim>\<open>None\<close>.
\<close>

theorem results_not_a_sequence:
  "results_list (JObj [(''results'', JNull)]) = Inr JNull
   \<and> results_list (JObj [(''results'', JNull)]) \<noteq> Inr (JArr [JObj [(''results'', JNull)]])"
  by (simp add: results_list_def lookup_def)

text \<open>
  C4. Every payload the two forms build is a JSON object with exactly one key among
  \<^verbatim>\<open>token\<close>, \<^verbatim>\<open>url\<close>, \<^verbatim>\<open>tokens\<close>, \<^verbatim>\<open>urls\<close>; the key matches the selected input
  type; a singular key holds one string and a plural key an array of strings; and every
  request either form adds to the log has such a body.
\<close>

theorem request_body_one_key:
  "spec_request_body (single_payload input_type v)
   \<and> spec_request_body (batch_payload batch_type items)
   \<and> (input_type = ''Token'' \<longrightarrow> single_payload input_type v = JObj [(''token'', JStr (strip v))])
   \<and> (input_type = ''URL'' \<longrightarrow> single_payload input_type v = JObj [(''url'', JStr (strip v))])
   \<and> (batch_type = ''Tokens'' \<longrightarrow>
        batch_payload batch_type items = JObj [(''tokens'', JArr (map JStr items))])
   \<and> (batch_type = ''URLs'' \<longrightarrow>
        batch_payload batch_type items = JObj [(''urls'', JArr (map JStr items))])
   \<and> (\<forall>r \<in> set (sent (snd (tab_single post secrets f g input_type v clicked st))).
        r \<in> set (sent st) \<or> spec_request_body (body r))
   \<and> (\<forall>r \<in> set (sent (snd (tab_batch post secrets f g batch_type raw clicked st))).
        r \<in> set (sent st) \<or> spec_request_body (body r))"
proof -
  have single: "\<forall>r \<in> set (sent (snd (tab_single post secrets f g input_type v clicked st))).
        r \<in> set (sent st) \<or> spec_request_body (body r)"
    using tab_single_sent [of "post" secrets f g input_type v clicked st] spec_single_payload
    by (auto simp: post_request_def)
  have batch: "\<forall>r \<in> set (sent (snd (tab_batch post secrets f g batch_type raw clicked st))).
        r \<in> set (sent st) \<or> spec_request_body (body r)"
    using tab_batch_sent [of "post" secrets f g batch_type raw clicked st] spec_batch_payload
    by (auto simp: post_request_def)
  show ?thesis
    using single batch spec_single_payload spec_batch_payload
    by (simp add: single_payload_def batch_payload_def)
qed

theorem request_body_one_key_witness:
  "single_payload ''Token'' ''abc-123'' = JObj [(''token'', JStr ''abc-123'')]
   \<and> batch_payload ''URLs'' [''u1'', ''u2''] = JObj [(''urls'', JArr [JStr ''u1'', JStr ''u2''])]
   \<and> list_all (\<lambda>r. spec_request_body (body r))
        (sent (snd (tab_single (replies None) [(''api_key'', ''k'')]
                      sample_fromisoformat sample_strftime ''Token'' ''abc-123'' True sample_state)))
   \<and> list_all (\<lambda>r. spec_request_body (body r))
        (sent (snd (tab_batch (replies None) [(''api_key'', ''k'')]
                      sample_fromisoformat sample_strftime ''URLs'' ''u1'' True sample_state)))"
  using
    request_body_one_key [of "''Token''" "''abc-123''" "''URLs''" "[''u1'', ''u2'']"
      "replies None" "[(''api_key'', ''k'')]" sample_fromisoformat sample_strftime True sample_state
      "''u1''"]
  by (simp add: list_all_iff sample_state_def strip_def is_space_def)

section \<open>The batch cap\<close>

lemma render_each_top:
  "w \<in> set (fst (render_each f g tot i rs)) \<Longrightarrow> \<exists>a b c d. w = St_expander a b c d"
  by (induction f g tot i rs arbitrary: w rule: render_each.induct)
     (auto simp: Let_def split: prod.splits option.splits)

lemma render_each_no_warning:
  "render_each f g tot i rs = (ws, e) \<Longrightarrow> St_warning \<notin> set ws"
  using render_each_top [of St_warning f g tot i rs] by auto

lemma render_batch_results_no_warning:
  "render_batch_results f g rl = (ws, e) \<Longrightarrow> St_warning \<notin> set ws"
  by (auto simp: render_batch_results_def Let_def split: sum.splits prod.splits
           dest: render_each_no_warning)

lemma tab_batch_warning:
  assumes "clicked" "items_of raw \<noteq> []"
  shows "St_warning \<in> set (fst (fst (tab_batch post secrets f g batch_type raw clicked st)))
         \<longleftrightarrow> 50 < length (items_of raw)"
  using assms
  by (auto simp: tab_batch_def limit_items_def Let_def split: prod.splits sum.splits
           dest: render_batch_results_no_warning)

text \<open>
  C5. When the batch form is submitted with a credential present: if the stripped
  non-blank lines number more than 50, the request carries exactly the first 50 of them in
  their order and the warning is shown (the request is still sent); if they number 50 or
  fewer, the request carries all of them unchanged and no warning is shown.
\<close>

theorem batch_truncated_to_first_50:
  assumes "clicked" "get_api_key secrets = Some k" "k \<noteq> []"
  shows "(50 < length (items_of raw) \<longrightarrow>
            sent (snd (tab_batch post secrets f g batch_type raw clicked st))
              = sent st @ [post_request k (batch_payload batch_type (take 50 (items_of raw)))]
            \<and> length (take 50 (items_of raw)) = 50
            \<and> St_warning \<in> set (fst (fst (tab_batch post secrets f g batch_type raw clicked st))))
       \<and> (items_of raw \<noteq> [] \<and> length (items_of raw) \<le> 50 \<longrightarrow>
            sent (snd (tab_batch post secrets f g batch_type raw clicked st))
              = sent st @ [post_request k (batch_payload batch_type (items_of raw))]
            \<and> St_warning \<notin> set (fst (fst (tab_batch post secrets f g batch_type raw clicked st))))"
proof (intro conjI impI)
  assume big: "50 < length (items_of raw)"
  then have ne: "items_of raw \<noteq> []" by auto
  show "sent (snd (tab_batch post secrets f g batch_type raw clicked st))
          = sent st @ [post_request k (batch_payload batch_type (take 50 (items_of raw)))]"
    using tab_batch_request [OF assms(1) ne assms(2,3)] big by (simp add: limit_items_def)
  show "length (take 50 (items_of raw)) = 50" using big by simp
  show "St_warning \<in> set (fst (fst (tab_batch post secrets f g batch_type raw clicked st)))"
    using tab_batch_warning [OF assms(1) ne] big by simp
next
  assume small: "items_of raw \<noteq> [] \<and> length (items_of raw) \<le> 50"
  then have ne: "items_of raw \<noteq> []" by simp
  show "sent (snd (tab_batch post secrets f g batch_type raw clicked st))
          = sent st @ [post_request k (batch_payload batch_type (items_of raw))]"
    using tab_batch_request [OF assms(1) ne assms(2,3)] small by (simp add: limit_items_def)
  show "St_warning \<notin> set (fst (fst (tab_batch post secrets f g batch_type raw clicked st)))"
    using tab_batch_warning [OF assms(1) ne] small by simp
qed

lemma sample_batch_52:
  "items_of (sample_batch 52) = map (\<lambda>i. [CHR ''t'', char_of (48 + i)]) [0..<52]"
  by code_simp

lemma sample_batch_2:
  "items_of (sample_batch 2) = [''t0'', ''t1'']"
  by code_simp

theorem batch_truncated_to_first_50_witness:
  "50 < length (items_of (sample_batch 52))
   \<and> sent (snd (tab_batch (replies None) [(''api_key'', ''k'')] sample_fromisoformat sample_strftime
                  ''Tokens'' (sample_batch 52) True sample_state))
       = [post_request ''k'' (batch_payload ''Tokens'' (take 50 (items_of (sample_batch 52))))]
   \<and> length (take 50 (items_of (sample_batch 52))) = 50
   \<and> St_warning \<in> set (fst (fst (tab_batch (replies None) [(''api_key'', ''k'')]
                  sample_fromisoformat sample_strftime ''Tokens'' (sample_batch 52) True sample_state)))
   \<and> sent (snd (tab_batch (replies None) [(''api_key'', ''k'')] sample_fromisoformat sample_strftime
                  ''Tokens'' (sample_batch 2) True sample_state))
       = [post_request ''k'' (batch_payload ''Tokens'' (items_of (sample_batch 2)))]
   \<and> St_warning \<notin> set (fst (fst (tab_batch (replies None) [(''api_key'', ''k'')]
                  sample_fromisoformat sample_strftime ''Tokens'' (sample_batch 2) True sample_state)))"
proof -
  have big: "50 < length (items_of (sample_batch 52))"
    by (simp add: sample_batch_52)
  have small: "items_of (sample_batch 2) \<noteq> [] \<and> length (items_of (sample_batch 2)) \<le> 50"
    by (simp add: sample_batch_2)
  have key: "get_api_key [(''api_key'', ''k'')] = Some ''k''" "''k'' \<noteq> []"
    by (simp_all add: get_api_key_def)
  have st: "sent sample_state = []" by (simp add: sample_state_def)
  note truncated = batch_truncated_to_first_50 [OF TrueI key, of _ "replies None"
        sample_fromisoformat sample_strftime "''Tokens''" sample_state]
  from truncated [of "sample_batch 52", THEN conjunct1, THEN mp, OF big]
       truncated [of "sample_batch 2", THEN conjunct2, THEN mp, OF small] big
  show ?thesis by (simp only: st append_Nil simp_thms)
qed

text \<open>
  C6. The items of a raw input are its lines, each stripped, without the blank ones: every
  item is non-empty and has no whitespace at either end, the order of the lines is kept,
  every non-blank entry occurs as often as among the stripped lines (nothing is
  deduplicated), and the cap counts the items only, so blank lines do not count toward it.
\<close>

theorem items_trimmed_nonblank_in_order:
  "items_of raw = filter (\<lambda>s. s \<noteq> []) (map strip (splitlines raw))
   \<and> (\<forall>x \<in> set (items_of raw).
         x \<noteq> [] \<and> strip x = x \<and> \<not> is_space (hd x) \<and> \<not> is_space (last x))
   \<and> (\<forall>x. x \<noteq> [] \<longrightarrow>
         count_list (items_of raw) x = count_list (map strip (splitlines raw)) x)
   \<and> length (items_of raw) = length (filter (\<lambda>line. strip line \<noteq> []) (splitlines raw))
   \<and> (length (filter (\<lambda>line. strip line \<noteq> []) (splitlines raw)) \<le> 50 \<longrightarrow>
         limit_items (items_of raw) = ([], items_of raw))"
proof -
  have eq: "items_of raw = filter (\<lambda>s. s \<noteq> []) (map strip (splitlines raw))"
    by (rule items_of_filter)
  have each: "x \<noteq> [] \<and> strip x = x \<and> \<not> is_space (hd x) \<and> \<not> is_space (last x)"
    if "x \<in> set (items_of raw)" for x
  proof -
    from that obtain line where x: "x = strip line" and ne: "strip line \<noteq> []"
      by (auto simp: items_of_def)
    show ?thesis using strip_ends [OF ne] ne by (simp add: x strip_idem)
  qed
  have cnt: "count_list (items_of raw) x = count_list (map strip (splitlines raw)) x"
    if "x \<noteq> []" for x
    using that by (simp add: eq count_list_filter)
  have len: "length (items_of raw) = length (filter (\<lambda>line. strip line \<noteq> []) (splitlines raw))"
    by (simp add: items_of_def)
  have cap: "limit_items (items_of raw) = ([], items_of raw)"
    if "length (filter (\<lambda>line. strip line \<noteq> []) (splitlines raw)) \<le> 50"
    using that len by (simp add: limit_items_def)
  show ?thesis using eq each cnt len cap by blast
qed

lemma sample_lines_stripped:
  "map strip (splitlines sample_lines) = [''a'', [], [], ''a'', ''b'']"
  by (simp add: sample_lines_def splitlines_def is_linebreak_def strip_def is_space_def)

theorem items_trimmed_nonblank_in_order_witness:
  "items_of sample_lines = [''a'', ''a'', ''b'']
   \<and> count_list (items_of sample_lines) ''a'' = 2
   \<and> limit_items (items_of sample_lines) = ([], items_of sample_lines)"
proof -
  note items = items_trimmed_nonblank_in_order [of sample_lines]
  have 1: "items_of sample_lines = [''a'', ''a'', ''b'']"
    using items [THEN conjunct1] by (simp add: sample_lines_stripped)
  have 2: "count_list (items_of sample_lines) ''a'' = 2"
    using items [THEN conjunct2, THEN conjunct2, THEN conjunct1, THEN spec, of "''a''"]
    by (simp add: sample_lines_stripped)
  have "length (items_of sample_lines) \<le> 50" by (simp add: 1)
  then have nb: "length (filter (\<lambda>line. strip line \<noteq> []) (splitlines sample_lines)) \<le> 50"
    using items [THEN conjunct2, THEN conjunct2, THEN conjunct2, THEN conjunct1] by simp
  have 3: "limit_items (items_of sample_lines) = ([], items_of sample_lines)"
    using items [THEN conjunct2, THEN conjunct2, THEN conjunct2, THEN conjunct2] nb by (rule mp)
  from 1 2 3 show ?thesis by (simp only: simp_thms)
qed

section \<open>Rendering results\<close>

lemma fmt_date_Inr: "\<exists>v. fmt_date f g x = Inr v"
  by (simp add: fmt_date_def split: sum.splits)

lemma colors_unknown:
  "status \<notin> {''active'', ''expired'', ''used'', ''revoked''} \<Longrightarrow> map_of colors status = None"
  by (simp add: colors_def)

text \<open>
  C7. The badge of every status string is computed without an error; a status outside
  \<^verbatim>\<open>active\<close>, \<^verbatim>\<open>expired\<close>, \<^verbatim>\<open>used\<close>, \<^verbatim>\<open>revoked\<close> gets the fallback badge, the white
  circle followed by the status in upper case; and a result with a true \<^verbatim>\<open>valid\<close> and such
  a status is rendered to the end, with that badge as its status metric.
\<close>

theorem unknown_status_fallback_badge:
  "(\<exists>badge. status_badge (JStr status) = Inr badge)
   \<and> (status \<notin> {''active'', ''expired'', ''used'', ''revoked''} \<longrightarrow>
        status_badge (JStr status) = Inr (white_circle @ '' '' @ upper status))
   \<and> (truthy (lookup data ''valid'' JNull)
        \<and> lookup data ''status'' (JStr em_dash) = JStr status
        \<and> status \<notin> {''active'', ''expired'', ''used'', ''revoked''} \<longrightarrow>
        snd (render_single_result f g (JObj data)) = None
        \<and> St_metric ''Status'' (JStr (white_circle @ '' '' @ upper status))
            \<in> set (fst (render_single_result f g (JObj data))))"
proof (intro conjI impI)
  show "\<exists>badge. status_badge (JStr status) = Inr badge" by simp
  show "status_badge (JStr status) = Inr (white_circle @ '' '' @ upper status)"
    if "status \<notin> {''active'', ''expired'', ''used'', ''revoked''}"
    using colors_unknown [OF that] by simp
next
  assume a: "truthy (lookup data ''valid'' JNull)
        \<and> lookup data ''status'' (JStr em_dash) = JStr status
        \<and> status \<notin> {''active'', ''expired'', ''used'', ''revoked''}"
  then have c: "map_of colors status = None" using colors_unknown by blast
  obtain issued where i: "fmt_date f g (lookup data ''created_at'' JNull) = Inr issued"
    using fmt_date_Inr by blast
  obtain until where u: "fmt_date f g (lookup data ''valid_until'' JNull) = Inr until"
    using fmt_date_Inr by blast
  show "snd (render_single_result f g (JObj data)) = None"
    using a c i u by (simp add: Let_def)
  show "St_metric ''Status'' (JStr (white_circle @ '' '' @ upper status))
            \<in> set (fst (render_single_result f g (JObj data)))"
    using a c i u by (simp add: Let_def)
qed

theorem unknown_status_fallback_badge_witness:
  "status_badge (JStr ''pending'') = Inr (white_circle @ '' PENDING'')
   \<and> snd (render_single_result sample_fromisoformat sample_strftime
            (JObj [(''valid'', JBool True), (''status'', JStr ''pending'')])) = None
   \<and> St_metric ''Status'' (JStr (white_circle @ '' PENDING''))
       \<in> set (fst (render_single_result sample_fromisoformat sample_strftime
                     (JObj [(''valid'', JBool True), (''status'', JStr ''pending'')])))"
proof -
  have up: "'' '' @ upper ''pending'' = '' PENDING''" by code_simp
  have unknown: "''pending'' \<notin> {''active'', ''expired'', ''used'', ''revoked''}" by simp
  have given:
    "truthy (lookup [(''valid'', JBool True), (''status'', JStr ''pending'')] ''valid'' JNull)
     \<and> lookup [(''valid'', JBool True), (''status'', JStr ''pending'')] ''status'' (JStr em_dash)
         = JStr ''pending''
     \<and> ''pending'' \<notin> {''active'', ''expired'', ''used'', ''revoked''}"
    by (simp add: lookup_def)
  note badge = unknown_status_fallback_badge [of "''pending''"
        "[(''valid'', JBool True), (''status'', JStr ''pending'')]"
        sample_fromisoformat sample_strftime]
  from badge unknown
  have 1: "status_badge (JStr ''pending'') = Inr (white_circle @ '' '' @ upper ''pending'')"
    by blast
  from badge given
  have 2: "snd (render_single_result sample_fromisoformat sample_strftime
            (JObj [(''valid'', JBool True), (''status'', JStr ''pending'')])) = None
     \<and> St_metric ''Status'' (JStr (white_circle @ '' '' @ upper ''pending''))
       \<in> set (fst (render_single_result sample_fromisoformat sample_strftime
                     (JObj [(''valid'', JBool True), (''status'', JStr ''pending'')])))"
    by blast
  from 1 2 show ?thesis by (simp only: up)
qed

lemma count_valid_results:
  "list_all is_result results \<Longrightarrow>
   count_valid results = Inr (int (length (filter valid_true results)))"
proof (induction results)
  case Nil
  then show ?case by simp
next
  case (Cons r rs)
  then obtain kvs where r: "r = JObj kvs" by (cases r) auto
  from Cons show ?case
    by (auto simp: r lookup_def split: option.splits json.splits)
qed

text \<open>
  C8. For every list of verification results the summary is computed, with the total equal
  to the length of the list, the valid count equal to the number of results whose
  \<^verbatim>\<open>valid\<close> is true, and the invalid count equal to the total minus the valid count; these
  are the three metrics displayed.
\<close>

theorem batch_summary_counts:
  assumes "list_all is_result results"
  shows "\<exists>s. batch_summary results = Inr s
           \<and> total s = int (length results)
           \<and> valid_count s = int (length (filter valid_true results))
           \<and> invalid_count s = total s - valid_count s
           \<and> 0 \<le> invalid_count s
           \<and> take 4 (fst (render_batch_results f g (JArr results)))
               = [St_metric ''Total'' (JNum (total s)),
                  St_metric (check_mark @ '' Valid'') (JNum (valid_count s)),
                  St_metric (cross_mark @ '' Invalid'') (JNum (invalid_count s)),
                  St_divider]"
proof -
  have le: "length (filter valid_true results) \<le> length results" by simp
  show ?thesis
    using count_valid_results [OF assms] le
    by (simp add: batch_summary_def render_batch_results_def Let_def split: prod.splits)
qed

theorem batch_summary_counts_witness:
  "batch_summary [JObj [(''valid'', JBool True)],
                  JObj [(''valid'', JBool False), (''error'', JStr ''expired'')],
                  JObj [(''valid'', JBool True)]]
     = Inr \<lparr> total = 3, valid_count = 2, invalid_count = 1 \<rparr>"
  using batch_summary_counts [of "[JObj [(''valid'', JBool True)],
                  JObj [(''valid'', JBool False), (''error'', JStr ''expired'')],
                  JObj [(''valid'', JBool True)]]" sample_fromisoformat sample_strftime]
  by auto

text \<open>
  C9. For every response with a status from 200 to 299 whose parsed payload is an object
  with a false (or missing) \<^verbatim>\<open>valid\<close>, the call returns the payload unchanged as a success,
  with its \<^verbatim>\<open>error\<close> field as the service sent it, and rendering it shows the
  invalid-prescription message with that field and raises nothing.
\<close>

theorem invalid_result_is_data:
  assumes "get_api_key secrets = Some k" "k \<noteq> []"
      and "post (post_request k payload) = Some resp"
      and "200 \<le> status_code resp" "status_code resp \<le> 299"
      and "body_json resp = Some (JObj data)"
      and "\<not> truthy (lookup data ''valid'' JNull)"
  shows "call_api post secrets payload log = (Inr (JObj data), log @ [post_request k payload])
       \<and> render_single_result f g (JObj data)
           = ([St_error (lookup data ''error'' (JStr ''Unknown error''))], None)"
  using assms by (simp add: call_api_def ok_def Let_def)

theorem invalid_result_is_data_witness:
  "call_api (replies (Some \<lparr>status_code = 200, resp_text = ''body'',
                body_json = Some (JObj [(''valid'', JBool False), (''error'', JStr ''Prescription expired'')])\<rparr>))
     [(''api_key'', ''k'')] (JObj [(''token'', JStr ''abc-123'')]) []
     = (Inr (JObj [(''valid'', JBool False), (''error'', JStr ''Prescription expired'')]),
        [post_request ''k'' (JObj [(''token'', JStr ''abc-123'')])])
   \<and> render_single_result sample_fromisoformat sample_strftime
        (JObj [(''valid'', JBool False), (''error'', JStr ''Prescription expired'')])
     = ([St_error (JStr ''Prescription expired'')], None)"
  using invalid_result_is_data [of "[(''api_key'', ''k'')]" "''k''"
      "replies (Some \<lparr>status_code = 200, resp_text = ''body'',
                body_json = Some (JObj [(''valid'', JBool False), (''error'', JStr ''Prescription expired'')])\<rparr>)"
      "JObj [(''token'', JStr ''abc-123'')]"
      "\<lparr>status_code = 200, resp_text = ''body'',
                body_json = Some (JObj [(''valid'', JBool False), (''error'', JStr ''Prescription expired'')])\<rparr>"
      "[(''valid'', JBool False), (''error'', JStr ''Prescription expired'')]"
      "[]" sample_fromisoformat sample_strftime]
  by (simp add: get_api_key_def replies_def lookup_def)

lemma replace_trailing_Z:
  "CHR ''Z'' \<notin> set t \<Longrightarrow> replace ''Z'' ''+00:00'' (t @ ''Z'') = t @ ''+00:00''"
  by (induction t) auto

text \<open>
  C10. \<^verbatim>\<open>fmt_date\<close> returns a value on every input, whatever the date library does: the
  dash for \<^verbatim>\<open>None\<close> and for the empty string; the formatted timestamp when the input,
  with \<^verbatim>\<open>Z\<close> replaced by \<^verbatim>\<open>+00:00\<close>, parses and formats; the input itself when parsing
  fails. A trailing \<^verbatim>\<open>Z\<close> is read as \<^verbatim>\<open>+00:00\<close>.
\<close>

theorem fmt_date_never_raises:
  "(\<exists>v. fmt_date f g x = Inr v)
   \<and> (x = JNull \<or> x = JStr [] \<longrightarrow> fmt_date f g x = Inr (JStr em_dash))
   \<and> (s \<noteq> [] \<and> f (replace ''Z'' ''+00:00'' s) = Some dt \<and> g dt date_format = Some out \<longrightarrow>
        fmt_date f g (JStr s) = Inr (JStr out))
   \<and> (s \<noteq> [] \<and> f (replace ''Z'' ''+00:00'' s) = None \<longrightarrow> fmt_date f g (JStr s) = Inr (JStr s))
   \<and> (CHR ''Z'' \<notin> set t \<longrightarrow> replace ''Z'' ''+00:00'' (t @ ''Z'') = t @ ''+00:00'')"
  using fmt_date_Inr [of f g x] replace_trailing_Z [of t]
  by (auto simp: fmt_date_def fmt_date_try_def)

theorem fmt_date_never_raises_witness:
  "fmt_date sample_fromisoformat sample_strftime JNull = Inr (JStr em_dash)
   \<and> fmt_date sample_fromisoformat sample_strftime (JStr ''2024-01-01T00:00:00Z'')
       = Inr (JStr ''Jan 01, 2024 00:00 UTC'')
   \<and> fmt_date sample_fromisoformat sample_strftime (JStr ''tomorrow'') = Inr (JStr ''tomorrow'')
   \<and> replace ''Z'' ''+00:00'' ''2024-01-01T00:00:00Z'' = ''2024-01-01T00:00:00+00:00''"
proof -
  have r1: "replace ''Z'' ''+00:00'' ''2024-01-01T00:00:00Z'' = ''2024-01-01T00:00:00+00:00''"
    by code_simp
  have r2: "replace ''Z'' ''+00:00'' ''tomorrow'' = ''tomorrow''" by code_simp
  show ?thesis
    using
      fmt_date_never_raises [of sample_fromisoformat sample_strftime JNull
        "''2024-01-01T00:00:00Z''" 0 "''Jan 01, 2024 00:00 UTC''" "''2024-01-01T00:00:00''"]
      fmt_date_never_raises [of sample_fromisoformat sample_strftime JNull
        "''tomorrow''" 0 "''x''" "''x''"]
    by (simp add: r1 r2 sample_fromisoformat_def sample_strftime_def)
qed

end
